theory Spec2Isabelle
  imports Complex_Main
begin

section \<open>Python and numpy values\<close>

text \<open>
  The exceptions. One that the sources raise carries the message of its raise statement;
  one that numpy raises carries the start of numpy's message.
\<close>

datatype error = ValueError string | IndexError string | AttributeError string | TypeError string

text \<open>
  The elements a caller can put into a mask: Python booleans, integers, floats and
  strings. Floats are idealised as reals throughout.
\<close>

datatype pyval = PyBool bool | PyInt int | PyFloat real | PyStr string

datatype dtype = dtype_bool | dtype_int64 | dtype_float64 | dtype_str

fun is_PyBool :: "pyval \<Rightarrow> bool" where
  "is_PyBool (PyBool b) = True"
| "is_PyBool (PyInt i) = False"
| "is_PyBool (PyFloat x) = False"
| "is_PyBool (PyStr s) = False"

fun is_PyFloat :: "pyval \<Rightarrow> bool" where
  "is_PyFloat (PyBool b) = False"
| "is_PyFloat (PyInt i) = False"
| "is_PyFloat (PyFloat x) = True"
| "is_PyFloat (PyStr s) = False"

fun is_PyStr :: "pyval \<Rightarrow> bool" where
  "is_PyStr (PyBool b) = False"
| "is_PyStr (PyInt i) = False"
| "is_PyStr (PyFloat x) = False"
| "is_PyStr (PyStr s) = True"

text \<open>
  The dtype of \<^verbatim>\<open>np.asarray(xs)\<close> for a list of such values: an empty list becomes a
  float64 array; any string makes it an array of strings; otherwise booleans only make a
  bool array, booleans and integers an int64 array, and any float makes it float64.
\<close>

definition asarray_dtype :: "pyval list \<Rightarrow> dtype" where
  "asarray_dtype xs =
     (if xs = [] then dtype_float64
      else if list_ex is_PyStr xs then dtype_str
      else if list_all is_PyBool xs then dtype_bool
      else if list_all (\<lambda>x. \<not> is_PyFloat x) xs then dtype_int64
      else dtype_float64)"

text \<open>The entries of the array as truth values; for a bool array, its entries.\<close>

fun truth :: "pyval \<Rightarrow> bool" where
  "truth (PyBool b) = b"
| "truth (PyInt i) = (i \<noteq> 0)"
| "truth (PyFloat x) = (x \<noteq> 0)"
| "truth (PyStr s) = (s \<noteq> [])"

text \<open>\<^verbatim>\<open>int(np.sum(mask))\<close> for a bool array: the number of true entries.\<close>

definition count_true :: "bool list \<Rightarrow> nat" where
  "count_true m = length (filter (\<lambda>b. b) m)"

text \<open>
  \<^verbatim>\<open>np.empty(shape=n)\<close> returns whatever the memory holds; \<open>u\<close> stands for that
  content, position by position.
\<close>

definition np_empty :: "(nat \<Rightarrow> real) \<Rightarrow> nat \<Rightarrow> real list" where
  "np_empty u n = map u [0..<n]"

text \<open>
  Reading with a boolean mask, \<^verbatim>\<open>a[m]\<close>: the entries of \<open>a\<close> at the true positions of
  \<open>m\<close>, in ascending index order.
\<close>

fun select :: "'a list \<Rightarrow> bool list \<Rightarrow> 'a list" where
  "select [] m = []"
| "select (a # as) [] = []"
| "select (a # as) (b # m) = (if b then a # select as m else select as m)"

text \<open>
  Writing with a boolean mask: the values go to the true positions one after the other,
  in ascending index order; the other positions keep what they hold.
\<close>

fun scatter :: "real list \<Rightarrow> bool list \<Rightarrow> real list \<Rightarrow> real list" where
  "scatter [] m vs = []"
| "scatter (a # as) [] vs = a # as"
| "scatter (a # as) (b # m) vs =
     (if b then (case vs of [] \<Rightarrow> a # as | v # vs' \<Rightarrow> v # scatter as m vs')
      else a # scatter as m vs)"

text \<open>
  The assignment \<^verbatim>\<open>a[m] = vs\<close> for one-dimensional arrays. numpy requires the mask to
  have the length of the array; it takes as many values as the mask has true entries,
  or a single value that it broadcasts to all of them, and raises otherwise.
\<close>

definition setitem_mask :: "real list \<Rightarrow> bool list \<Rightarrow> real list \<Rightarrow> error + real list" where
  "setitem_mask a m vs =
     (if length m \<noteq> length a then
        Inl (IndexError ''boolean index did not match indexed array'')
      else if length vs = count_true m then Inr (scatter a m vs)
      else if length vs = 1 then Inr (scatter a m (replicate (count_true m) (hd vs)))
      else Inl (ValueError ''NumPy boolean array indexing assignment cannot assign input values to the output values where the mask is true''))"

section \<open>The reduced log-pdf (\<^verbatim>\<open>_log_pdfs.py\<close>)\<close>

text \<open>
  A \<^verbatim>\<open>pints.LogPDF\<close>: a parameter count and a callable. The callable is an external
  collaborator, so it runs in a state \<open>'s\<close> of its own that every call may change; a
  result that is the collaborator's result and state after one call on a vector is the
  result of calling it exactly once, with that vector.
\<close>

record 's log_pdf =
  lp_n_parameters :: nat
  lp_call :: "real list \<Rightarrow> 's \<Rightarrow> real \<times> 's"

text \<open>The attributes of \<^verbatim>\<open>ReducedLogPDF\<close>. \<open>rl_mask\<close> is the negated mask: true marks a free parameter.\<close>

record 's ReducedLogPDF =
  rl_log_pdf :: "'s log_pdf"
  rl_parameters :: "real list"
  rl_mask :: "bool list"
  rl_n_parameters :: nat

text \<open>\<^verbatim>\<open>ReducedLogPDF.__init__(log_pdf, mask, values)\<close>, lines 21 to 48.\<close>

definition ReducedLogPDF_init ::
  "(nat \<Rightarrow> real) \<Rightarrow> 's log_pdf \<Rightarrow> pyval list \<Rightarrow> real list \<Rightarrow> error + 's ReducedLogPDF" where
  "ReducedLogPDF_init u log_pdf mask_arg values =
     (if length mask_arg \<noteq> lp_n_parameters log_pdf then
        Inl (ValueError ''Length of mask has to match the number of log-pdf parameters.'')
      else if asarray_dtype mask_arg \<noteq> dtype_bool then
        Inl (ValueError ''Mask has to be a boolean array.'')
      else
        let mask_arr = map truth mask_arg;
            n_fixed = count_true mask_arr
        in if n_fixed \<noteq> length values then
             Inl (ValueError ''The have to be as many value inputs as the number of fixed parameters.'')
           else
             (case setitem_mask (np_empty u (length mask_arr)) mask_arr values of
                Inl e \<Rightarrow> Inl e
              | Inr parameters \<Rightarrow>
                  Inr \<lparr> rl_log_pdf = log_pdf,
                        rl_parameters = parameters,
                        rl_mask = map Not mask_arr,
                        rl_n_parameters = count_true (map Not mask_arr) \<rparr>))"

text \<open>
  \<^verbatim>\<open>ReducedLogPDF.__call__(parameters)\<close>, lines 50 to 54: the buffer is updated in place
  and handed to the wrapped log-pdf. The result is the score, the adapter with its
  buffer as the call leaves it, and the state of the wrapped log-pdf.
\<close>

definition ReducedLogPDF_call ::
  "'s ReducedLogPDF \<Rightarrow> real list \<Rightarrow> 's \<Rightarrow> error + (real \<times> 's ReducedLogPDF \<times> 's)" where
  "ReducedLogPDF_call self parameters s =
     (case setitem_mask (rl_parameters self) (rl_mask self) parameters of
        Inl e \<Rightarrow> Inl e
      | Inr buffer \<Rightarrow>
          (case lp_call (rl_log_pdf self) buffer s of
             (score, s') \<Rightarrow> Inr (score, self\<lparr>rl_parameters := buffer\<rparr>, s')))"

text \<open>\<^verbatim>\<open>ReducedLogPDF.n_parameters()\<close>, lines 56 to 60.\<close>

definition ReducedLogPDF_n_parameters :: "'s ReducedLogPDF \<Rightarrow> nat" where
  "ReducedLogPDF_n_parameters self = rl_n_parameters self"

section \<open>The predictive model (\<^verbatim>\<open>_predictive_models.py\<close>)\<close>

subsection \<open>Collaborators\<close>

text \<open>
  A dose event of the mechanistic model's regimen, with the accessors the source reads:
  \<^verbatim>\<open>level()\<close>, \<^verbatim>\<open>duration()\<close>, \<^verbatim>\<open>start()\<close>, \<^verbatim>\<open>period()\<close> and \<^verbatim>\<open>multiplier()\<close>.
\<close>

record dose_event =
  ev_level :: real
  ev_duration :: real
  ev_start :: real
  ev_period :: real
  ev_multiplier :: int

text \<open>
  What the collaborators do is recorded in a trace, one event per call, in call order.
  \<open>PredictiveSample\<close> marks an entry into \<^verbatim>\<open>PredictiveModel.sample\<close> with the arguments
  it received; \<open>PriorSample\<close> carries the vector the prior returned.
\<close>

datatype event =
    RandomSeed int
  | PriorSample "real list"
  | PredictiveSample "real list" "real list" "int option" "int option"
  | Simulate "real list" "real list"
  | ErrorSample nat "real list" "real list" int "int option"

text \<open>
  The world a call runs in: the state \<open>'g\<close> of the collaborators (the simulator, the
  random number generators) and the trace. An exception leaves both as they are when it
  is raised, so a call returns its outcome together with the world.
\<close>

record 'g world =
  w_state :: 'g
  w_trace :: "event list"

text \<open>
  The mechanistic model: \<^verbatim>\<open>n_parameters()\<close>, \<^verbatim>\<open>parameters()\<close>, \<^verbatim>\<open>n_outputs()\<close>,
  \<^verbatim>\<open>outputs()\<close>, \<^verbatim>\<open>simulate(parameters, times)\<close> with one row per output, and
  \<^verbatim>\<open>dosing_regimen()\<close>, which raises AttributeError on a model without dosing and
  returns None while no regimen is set.
\<close>

record 'g MechanisticModel =
  mm_n_parameters :: nat
  mm_parameters :: "string list"
  mm_n_outputs :: nat
  mm_outputs :: "string list"
  mm_simulate :: "real list \<Rightarrow> real list \<Rightarrow> 'g \<Rightarrow> real list list \<times> 'g"
  mm_dosing_regimen :: "error + dose_event list option"

text \<open>
  An error model: \<^verbatim>\<open>n_parameters()\<close>, \<^verbatim>\<open>get_parameter_names()\<close> and
  \<^verbatim>\<open>sample(parameters, model_output, n_samples, seed)\<close>, an array of shape
  \<^verbatim>\<open>(n_times, n_samples)\<close> given as its list of rows.
\<close>

record 'g ErrorModel =
  em_n_parameters :: nat
  em_get_parameter_names :: "string list"
  em_sample :: "real list \<Rightarrow> real list \<Rightarrow> int \<Rightarrow> int option \<Rightarrow> 'g \<Rightarrow> real list list \<times> 'g"

text \<open>A \<^verbatim>\<open>pints.LogPrior\<close>: \<^verbatim>\<open>n_parameters()\<close> and \<^verbatim>\<open>sample()\<close>, already flattened.\<close>

record 'g LogPrior =
  prior_n_parameters :: nat
  prior_sample :: "'g \<Rightarrow> real list \<times> 'g"

definition call_simulate ::
  "'g MechanisticModel \<Rightarrow> real list \<Rightarrow> real list \<Rightarrow> 'g world \<Rightarrow> real list list \<times> 'g world" where
  "call_simulate m parameters ts w =
     (case mm_simulate m parameters ts (w_state w) of
        (outputs, g) \<Rightarrow>
          (outputs, \<lparr> w_state = g, w_trace = w_trace w @ [Simulate parameters ts] \<rparr>))"

definition call_em_sample ::
  "'g ErrorModel \<Rightarrow> nat \<Rightarrow> real list \<Rightarrow> real list \<Rightarrow> int \<Rightarrow> int option \<Rightarrow> 'g world
     \<Rightarrow> real list list \<times> 'g world" where
  "call_em_sample em output_id parameters model_output n_samples seed w =
     (case em_sample em parameters model_output n_samples seed (w_state w) of
        (samples, g) \<Rightarrow>
          (samples, \<lparr> w_state = g,
                      w_trace = w_trace w
                        @ [ErrorSample output_id parameters model_output n_samples seed] \<rparr>))"


subsection \<open>\<^verbatim>\<open>PredictiveModel\<close>\<close>

record 'g PredictiveModel =
  pm_mechanistic_model :: "'g MechanisticModel"
  pm_error_models :: "'g ErrorModel list"
  pm_parameter_names :: "string list"
  pm_n_parameters :: nat

text \<open>
  \<^verbatim>\<open>PredictiveModel.__init__(mechanistic_model, error_models)\<close>, lines 94 to 130, with
  \<^verbatim>\<open>outputs=None\<close>. The \<^verbatim>\<open>isinstance\<close> checks are the types of the arguments.
\<close>

definition PredictiveModel_init ::
  "'g MechanisticModel \<Rightarrow> 'g ErrorModel list \<Rightarrow> error + 'g PredictiveModel" where
  "PredictiveModel_init mechanistic_model error_models =
     (let n_outputs = mm_n_outputs mechanistic_model
      in if length error_models \<noteq> n_outputs then
           Inl (ValueError ''Wrong number of error models. One error model has to be provided for each mechanistic error model.'')
         else
           let parameter_names =
                 foldl (\<lambda>names error_model. names @ em_get_parameter_names error_model)
                   (mm_parameters mechanistic_model) error_models
           in Inr \<lparr> pm_mechanistic_model = mechanistic_model,
                    pm_error_models = error_models,
                    pm_parameter_names = parameter_names,
                    pm_n_parameters = length parameter_names \<rparr>)"

subsection \<open>\<^verbatim>\<open>PredictiveModel.get_dosing_regimen\<close>\<close>

text \<open>
  \<open>final_time\<close> after line 173 is a real number or \<^verbatim>\<open>np.inf\<close>.
\<close>

datatype time_bound = Finite real | Infinite

fun exceeds :: "real \<Rightarrow> time_bound \<Rightarrow> bool" where
  "exceeds t (Finite b) = (t > b)"
| "exceeds t Infinite = False"

fun up_to :: "real \<Rightarrow> time_bound \<Rightarrow> bool" where
  "up_to t (Finite b) = (t \<le> b)"
| "up_to t Infinite = True"

record regimen_row =
  Time :: real
  Duration :: real
  Dose :: real

text \<open>
  The body of the loop over \<^verbatim>\<open>regimen.events()\<close>, lines 182 to 228: the rows one dose
  event appends to the dataframe. \<^verbatim>\<open>final_time // period\<close> is the floor of the quotient,
  and \<^verbatim>\<open>range(n)\<close> is empty for a negative \<open>n\<close>.
\<close>

definition event_rows :: "time_bound \<Rightarrow> dose_event \<Rightarrow> regimen_row list" where
  "event_rows final_time dose_event =
     (let dose_rate = ev_level dose_event;
          dose_duration = ev_duration dose_event;
          dose_amount = dose_rate * dose_duration;
          start_time = ev_start dose_event;
          period = ev_period dose_event;
          n_doses = ev_multiplier dose_event
      in if exceeds start_time final_time then []
         else if period = 0 then
           [\<lparr> Time = start_time, Duration = dose_duration, Dose = dose_amount \<rparr>]
         else
           let n_doses =
                 (if n_doses = 0 then
                    (case final_time of Infinite \<Rightarrow> 1 | Finite t \<Rightarrow> \<lfloor>t / period\<rfloor>)
                  else n_doses);
               dose_times = map (\<lambda>n. start_time + real n * period) [0..<nat n_doses];
               dose_times = filter (\<lambda>t. up_to t final_time) dose_times
           in map (\<lambda>t. \<lparr> Time = t, Duration = dose_duration, Dose = dose_amount \<rparr>) dose_times)"

fun regimen_loop :: "time_bound \<Rightarrow> dose_event list \<Rightarrow> regimen_row list \<Rightarrow> regimen_row list" where
  "regimen_loop final_time [] regimen_df = regimen_df"
| "regimen_loop final_time (dose_event # events) regimen_df =
     regimen_loop final_time events (regimen_df @ event_rows final_time dose_event)"

text \<open>
  \<^verbatim>\<open>PredictiveModel.get_dosing_regimen(final_time=None)\<close>, lines 160 to 238. Only an
  AttributeError of \<^verbatim>\<open>dosing_regimen()\<close> is caught.
\<close>

definition get_dosing_regimen ::
  "'g PredictiveModel \<Rightarrow> real option \<Rightarrow> error + regimen_row list option" where
  "get_dosing_regimen self final_time =
     (case mm_dosing_regimen (pm_mechanistic_model self) of
        Inl (AttributeError msg) \<Rightarrow> Inr None
      | Inl e \<Rightarrow> Inl e
      | Inr None \<Rightarrow> Inr None
      | Inr (Some regimen) \<Rightarrow>
          let final_time = (case final_time of None \<Rightarrow> Infinite | Some t \<Rightarrow> Finite t)
          in if (case final_time of Finite t \<Rightarrow> t < 0 | Infinite \<Rightarrow> False) then
               Inl (ValueError ''The final dose time has to be positive.'')
             else
               let regimen_df = regimen_loop final_time regimen []
               in if regimen_df = [] then Inr None else Inr (Some regimen_df))"

text \<open>
  A dose event starts at or before \<open>final_time\<close>; every event does when no final time
  is given.
\<close>

definition starts_by :: "real option \<Rightarrow> dose_event \<Rightarrow> bool" where
  "starts_by final_time dose_event =
     (case final_time of None \<Rightarrow> True | Some t \<Rightarrow> ev_start dose_event \<le> t)"

subsection \<open>\<^verbatim>\<open>PredictiveModel.sample\<close>\<close>

text \<open>
  \<^verbatim>\<open>np.empty(shape=(n_outputs, n_times, n_samples))\<close>, one matrix of \<open>n_times\<close> rows per
  output; \<open>u\<close> is what the memory holds.
\<close>

definition np_empty3 :: "(nat \<Rightarrow> nat \<Rightarrow> nat \<Rightarrow> real) \<Rightarrow> nat \<Rightarrow> nat \<Rightarrow> nat \<Rightarrow> real list list list" where
  "np_empty3 u n_outputs n_times n_samples =
     map (\<lambda>i. map (\<lambda>j. map (\<lambda>k. u i j k) [0..<n_samples]) [0..<n_times]) [0..<n_outputs]"

definition has_shape :: "nat \<Rightarrow> nat \<Rightarrow> real list list \<Rightarrow> bool" where
  "has_shape n_rows n_cols a \<longleftrightarrow> length a = n_rows \<and> list_all (\<lambda>row. length row = n_cols) a"

text \<open>The slice \<^verbatim>\<open>xs[i:j]\<close> for \<open>0 \<le> i\<close>; it is cut off at the end of the list.\<close>

definition slice :: "'a list \<Rightarrow> nat \<Rightarrow> nat \<Rightarrow> 'a list" where
  "slice xs i j = take (j - i) (drop i xs)"

text \<open>
  The loop over the error models, lines 331 to 343. \<^verbatim>\<open>outputs[output_id]\<close> raises
  IndexError when the simulator returned fewer rows than there are error models. The
  assignment to \<^verbatim>\<open>container[output_id, ...]\<close> takes an array of the shape
  \<^verbatim>\<open>(n_times, n_samples)\<close>, which is what an error model returns; for any other shape
  the model raises the ValueError of numpy's failed broadcast (the shapes numpy could
  still broadcast are outside the error model's interface and are not modelled).
\<close>

fun sample_errors ::
  "'g ErrorModel list \<Rightarrow> nat \<Rightarrow> nat \<Rightarrow> real list \<Rightarrow> real list list \<Rightarrow> nat \<Rightarrow> int \<Rightarrow> int option
     \<Rightarrow> real list list list \<Rightarrow> 'g world \<Rightarrow> (error + real list list list) \<times> 'g world" where
  "sample_errors [] output_id start_index error_params outputs n_times n_samples seed
     container w = (Inr container, w)"
| "sample_errors (error_model # error_models) output_id start_index error_params outputs
     n_times n_samples seed container w =
     (let end_index = start_index + em_n_parameters error_model
      in if length outputs \<le> output_id then
           (Inl (IndexError ''index is out of bounds for axis 0''), w)
         else
           (case call_em_sample error_model output_id
                   (slice error_params start_index end_index) (outputs ! output_id)
                   n_samples seed w of
              (samples, w') \<Rightarrow>
                if \<not> has_shape n_times (nat n_samples) samples then
                  (Inl (ValueError ''could not broadcast input array''), w')
                else
                  sample_errors error_models (Suc output_id) end_index error_params outputs
                    n_times n_samples seed (container[output_id := samples]) w'))"

text \<open>A row of the dataframe of samples; \<open>Sample_Time\<close> is its column \<^verbatim>\<open>Time\<close>.\<close>

record sample_row =
  Sample_ID :: int
  Biomarker :: string
  Sample_Time :: real
  Sample :: real

text \<open>
  The loops that fill the dataframe, lines 356 to 362. \<^verbatim>\<open>container[output_id, time_id, :]\<close>
  raises IndexError for an output name beyond the rows of the container; it is only
  evaluated when there is a time point.
\<close>

fun frame_outputs ::
  "real list list list \<Rightarrow> int list \<Rightarrow> real list \<Rightarrow> nat \<Rightarrow> string list \<Rightarrow> sample_row list
     \<Rightarrow> error + sample_row list" where
  "frame_outputs container sample_ids ts output_id [] samples = Inr samples"
| "frame_outputs container sample_ids ts output_id (name # output_names) samples =
     (if ts \<noteq> [] \<and> length container \<le> output_id then
        Inl (IndexError ''index is out of bounds for axis 0'')
      else
        frame_outputs container sample_ids ts (Suc output_id) output_names
          (samples @ concat (map (\<lambda>(time_id, time).
              map (\<lambda>(sample_id, sample).
                    \<lparr> Sample_ID = sample_id, Biomarker = name,
                      Sample_Time = time, Sample = sample \<rparr>)
                (zip sample_ids (container ! output_id ! time_id)))
             (enumerate 0 ts))))"

text \<open>What \<^verbatim>\<open>sample\<close> returns: the numpy array or the dataframe.\<close>

datatype samples = Array "real list list list" | DataFrame "sample_row list"

text \<open>
  \<^verbatim>\<open>PredictiveModel.sample(parameters, times, n_samples=None, seed=None, return_df=True)\<close>,
  lines 308 to 364. \<^verbatim>\<open>np.sort\<close> sorts and keeps every element. A negative \<open>n_samples\<close>
  makes \<^verbatim>\<open>np.empty\<close> raise.
\<close>

definition PredictiveModel_sample ::
  "(nat \<Rightarrow> nat \<Rightarrow> nat \<Rightarrow> real) \<Rightarrow> 'g PredictiveModel \<Rightarrow> real list \<Rightarrow> real list \<Rightarrow> int option
     \<Rightarrow> int option \<Rightarrow> bool \<Rightarrow> 'g world \<Rightarrow> (error + samples) \<times> 'g world" where
  "PredictiveModel_sample u self parameters ts n_samples seed return_df w0 =
     (let w = w0\<lparr> w_trace := w_trace w0 @ [PredictiveSample parameters ts n_samples seed] \<rparr>
      in if length parameters \<noteq> pm_n_parameters self then
           (Inl (ValueError ''The length of parameters does not match n_parameters.''), w)
         else
           let ts = sort ts;
               n_parameters = mm_n_parameters (pm_mechanistic_model self);
               mechanistic_params = take n_parameters parameters;
               error_params = drop n_parameters parameters
           in (case call_simulate (pm_mechanistic_model self) mechanistic_params ts w of
                 (outputs, w) \<Rightarrow>
                   let n_outputs = length outputs;
                       n_times = length ts;
                       n_samples = (case n_samples of None \<Rightarrow> 1 | Some n \<Rightarrow> n)
                   in if n_samples < 0 then
                        (Inl (ValueError ''negative dimensions are not allowed''), w)
                      else
                        (case sample_errors (pm_error_models self) 0 0 error_params outputs
                                n_times n_samples seed
                                (np_empty3 u n_outputs n_times (nat n_samples)) w of
                           (Inl e, w) \<Rightarrow> (Inl e, w)
                         | (Inr container, w) \<Rightarrow>
                             if \<not> return_df then (Inr (Array container), w)
                             else
                               (case frame_outputs container [1..n_samples] ts 0
                                       (mm_outputs (pm_mechanistic_model self)) [] of
                                  Inl e \<Rightarrow> (Inl e, w)
                                | Inr samples \<Rightarrow> (Inr (DataFrame samples), w)))))"

subsection \<open>\<^verbatim>\<open>PriorPredictiveModel\<close>\<close>

record 'g PriorPredictiveModel =
  ppm_predictive_model :: "'g PredictiveModel"
  ppm_log_prior :: "'g LogPrior"

text \<open>\<^verbatim>\<open>PriorPredictiveModel.__init__(predictive_model, log_prior)\<close>, lines 443 to 456.\<close>

definition PriorPredictiveModel_init ::
  "'g PredictiveModel \<Rightarrow> 'g LogPrior \<Rightarrow> error + 'g PriorPredictiveModel" where
  "PriorPredictiveModel_init predictive_model log_prior =
     (if pm_n_parameters predictive_model \<noteq> prior_n_parameters log_prior then
        Inl (ValueError ''The dimension of the log-prior has to be the same as the number of parameters of the predictive model.'')
      else Inr \<lparr> ppm_predictive_model = predictive_model, ppm_log_prior = log_prior \<rparr>)"





subsection \<open>Reading the trace\<close>

text \<open>The calls of the simulator in a trace, with their arguments.\<close>

fun simulate_call :: "event \<Rightarrow> (real list \<times> real list) option" where
  "simulate_call (Simulate parameters ts) = Some (parameters, ts)"
| "simulate_call (RandomSeed s) = None"
| "simulate_call (PriorSample p) = None"
| "simulate_call (PredictiveSample p ts n s) = None"
| "simulate_call (ErrorSample i p y n s) = None"

definition simulate_calls :: "event list \<Rightarrow> (real list \<times> real list) list" where
  "simulate_calls evs = List.map_filter simulate_call evs"

text \<open>The calls of the error models in a trace: the output and the parameter slice.\<close>

fun error_sample_call :: "event \<Rightarrow> (nat \<times> real list) option" where
  "error_sample_call (ErrorSample i p y n s) = Some (i, p)"
| "error_sample_call (RandomSeed s) = None"
| "error_sample_call (PriorSample p) = None"
| "error_sample_call (PredictiveSample p ts n s) = None"
| "error_sample_call (Simulate p ts) = None"

definition error_sample_calls :: "event list \<Rightarrow> (nat \<times> real list) list" where
  "error_sample_calls evs = List.map_filter error_sample_call evs"

text \<open>The draws from the prior and the entries into \<^verbatim>\<open>PredictiveModel.sample\<close>.\<close>

fun is_draw_or_sample :: "event \<Rightarrow> bool" where
  "is_draw_or_sample (PriorSample p) = True"
| "is_draw_or_sample (PredictiveSample p ts n s) = True"
| "is_draw_or_sample (RandomSeed s) = False"
| "is_draw_or_sample (Simulate p ts) = False"
| "is_draw_or_sample (ErrorSample i p y n s) = False"

text \<open>
  Cutting a list into consecutive pieces of the given lengths, first piece first.
\<close>

fun chunks :: "nat list \<Rightarrow> 'a list \<Rightarrow> 'a list list" where
  "chunks [] xs = []"
| "chunks (k # ks) xs = take k xs # chunks ks (drop k xs)"

section \<open>The optimisation controller\<close>

text \<open>
  Modelled from the spec: the controller (\<^verbatim>\<open>OptimisationController\<close>) is not among the
  sources; only its test is (\<^verbatim>\<open>tests/test_optimisation.py\<close>). What follows is the part
  of it that \<^verbatim>\<open>run\<close> needs, from sections 3, 4.4 and 7 of the specification.
\<close>

text \<open>
  Modelled from the spec: a score or an estimate as the optimiser returns it, a real
  number or one of the floats that are not finite.
\<close>

datatype number = Num real | NaN | PosInf | NegInf









section \<open>Example objects\<close>

text \<open>Memory that holds the same number everywhere.\<close>

definition memory :: "real \<Rightarrow> nat \<Rightarrow> real" where
  "memory c i = c"

text \<open>
  A log-pdf with \<open>n\<close> parameters that returns the sum of its argument and keeps the list
  of the vectors it was called with.
\<close>

definition sum_log_pdf :: "nat \<Rightarrow> (real list list) log_pdf" where
  "sum_log_pdf n = \<lparr> lp_n_parameters = n, lp_call = (\<lambda>x calls. (sum_list x, calls @ [x])) \<rparr>"

text \<open>
  A mechanistic model with one parameter and one output, the line through the origin
  with the parameter as slope. Its collaborator state counts the calls. The argument is
  what \<^verbatim>\<open>dosing_regimen()\<close> does.
\<close>

definition line_model :: "error + dose_event list option \<Rightarrow> nat MechanisticModel" where
  "line_model dosing =
     \<lparr> mm_n_parameters = 1, mm_parameters = [''slope''],
       mm_n_outputs = 1, mm_outputs = [''volume''],
       mm_simulate = (\<lambda>parameters ts g. ([map (\<lambda>t. sum_list parameters * t) ts], Suc g)),
       mm_dosing_regimen = dosing \<rparr>"

text \<open>An error model with one parameter that shifts every output value by it.\<close>

definition shift_error_model :: "nat ErrorModel" where
  "shift_error_model =
     \<lparr> em_n_parameters = 1, em_get_parameter_names = [''shift''],
       em_sample = (\<lambda>parameters model_output n_samples seed g.
          (map (\<lambda>y. replicate (nat n_samples) (y + sum_list parameters)) model_output, Suc g)) \<rparr>"

definition line_predictive_model :: "error + dose_event list option \<Rightarrow> nat PredictiveModel" where
  "line_predictive_model dosing =
     \<lparr> pm_mechanistic_model = line_model dosing,
       pm_error_models = [shift_error_model],
       pm_parameter_names = [''slope'', ''shift''],
       pm_n_parameters = 2 \<rparr>"

text \<open>A mechanistic model without dosing: \<^verbatim>\<open>dosing_regimen()\<close> raises AttributeError.\<close>

definition no_dosing :: "error + dose_event list option" where
  "no_dosing = Inl (AttributeError ''object has no attribute dosing_regimen'')"

text \<open>
  The event of \<^verbatim>\<open>set_dosing_regimen(dose=1, start=s, duration=0.01, period=2, num=0)\<close>:
  a dose of 1 given over 0.01 time units, every 2 time units, without end.
\<close>

definition indefinite_event :: "real \<Rightarrow> dose_event" where
  "indefinite_event s =
     \<lparr> ev_level = 100, ev_duration = 1 / 100, ev_start = s, ev_period = 2, ev_multiplier = 0 \<rparr>"

text \<open>
  A prior over two parameters whose draw is the collaborator state and zero, and a
  seeding that sets the state to the seed.
\<close>

definition counting_prior :: "nat LogPrior" where
  "counting_prior = \<lparr> prior_n_parameters = 2, prior_sample = (\<lambda>g. ([real g, 0], Suc g)) \<rparr>"


definition line_prior_predictive_model :: "nat PriorPredictiveModel" where
  "line_prior_predictive_model =
     \<lparr> ppm_predictive_model = line_predictive_model no_dosing,
       ppm_log_prior = counting_prior \<rparr>"

definition memory3 :: "real \<Rightarrow> nat \<Rightarrow> nat \<Rightarrow> nat \<Rightarrow> real" where
  "memory3 c i j k = c"


definition empty_world :: "nat world" where
  "empty_world = \<lparr> w_state = 0, w_trace = [] \<rparr>"



section \<open>Properties of the reduced log-pdf\<close>

lemma count_true_Not: "count_true (map Not m) + count_true m = length m"
  by (induction m) (simp_all add: count_true_def)

lemma length_scatter [simp]: "length (scatter a m vs) = length a"
  by (induction a m vs rule: scatter.induct) (simp_all split: list.splits)

text \<open>What was written through a mask is read back through it, in the same order.\<close>

lemma select_scatter_same:
  "length m = length a \<Longrightarrow> length vs = count_true m \<Longrightarrow> select (scatter a m vs) m = vs"
  by (induction a m vs rule: scatter.induct) (auto simp: count_true_def split: list.splits)

text \<open>Writing through a mask leaves the positions outside it alone.\<close>

lemma select_scatter_other:
  "length m = length a \<Longrightarrow> select (scatter a m vs) (map Not m) = select a (map Not m)"
  by (induction a m vs rule: scatter.induct) (auto split: list.splits)

text \<open>
  \<open>select\<close> is the library's \<open>nths\<close> on the set of true positions, so the \<open>i\<close>-th
  entry selected sits at the \<open>i\<close>-th true position in ascending index order.
\<close>

lemma select_nths: "select xs m = nths xs {i. i < length m \<and> m ! i}"
proof (induction xs m rule: select.induct)
  case (3 a as b m)
  have "{j. Suc j < Suc (length m) \<and> (b # m) ! Suc j} = {j. j < length m \<and> m ! j}" by simp
  with 3 show ?case by (auto simp: nths_Cons)
qed simp_all

text \<open>
  Once the fixed and the free positions have both been written, nothing of the buffer's
  first content is left.
\<close>

lemma scatter_twice:
  "length m = length e1 \<Longrightarrow> length e2 = length e1 \<Longrightarrow> length vs = count_true m \<Longrightarrow>
   length ps = count_true (map Not m) \<Longrightarrow>
   scatter (scatter e1 m vs) (map Not m) ps = scatter (scatter e2 m vs) (map Not m) ps"
proof (induction m arbitrary: e1 e2 vs ps)
  case Nil
  then show ?case by simp
next
  case (Cons b m)
  then obtain a1 r1 a2 r2 where e: "e1 = a1 # r1" "e2 = a2 # r2"
    by (metis length_Suc_conv)
  show ?case
  proof (cases b)
    case True
    with Cons.prems obtain v vs' where vs: "vs = v # vs'"
      by (cases vs) (auto simp: count_true_def)
    with True Cons.prems e show ?thesis
      using Cons.IH [of r1 r2 vs' ps] by (simp add: count_true_def)
  next
    case False
    with Cons.prems obtain p ps' where ps: "ps = p # ps'"
      by (cases ps) (auto simp: count_true_def)
    with False Cons.prems e show ?thesis
      using Cons.IH [of r1 r2 vs ps'] by (simp add: count_true_def)
  qed
qed

text \<open>A list converts to a bool array exactly when it is not empty and holds booleans only.\<close>

lemma asarray_dtype_bool:
  "asarray_dtype xs = dtype_bool \<longleftrightarrow> xs \<noteq> [] \<and> list_all is_PyBool xs"
proof -
  have "\<not> is_PyStr x" if "is_PyBool x" for x
    using that by (cases x) simp_all
  then have "\<not> list_ex is_PyStr xs" if "list_all is_PyBool xs"
    using that by (auto simp: list_all_iff list_ex_iff)
  then show ?thesis by (auto simp add: asarray_dtype_def)
qed

lemma ReducedLogPDF_init_ok:
  assumes "length mask_arg = lp_n_parameters log_pdf" "asarray_dtype mask_arg = dtype_bool"
    "length values = count_true (map truth mask_arg)"
  shows "ReducedLogPDF_init u log_pdf mask_arg values =
     Inr \<lparr> rl_log_pdf = log_pdf,
           rl_parameters = scatter (np_empty u (length mask_arg)) (map truth mask_arg) values,
           rl_mask = map Not (map truth mask_arg),
           rl_n_parameters = count_true (map Not (map truth mask_arg)) \<rparr>"
  using assms by (simp add: ReducedLogPDF_init_def Let_def setitem_mask_def np_empty_def)

lemma ReducedLogPDF_init_Inr_iff:
  "ReducedLogPDF_init u log_pdf mask_arg values = Inr self \<longleftrightarrow>
    length mask_arg = lp_n_parameters log_pdf \<and> asarray_dtype mask_arg = dtype_bool \<and>
    length values = count_true (map truth mask_arg) \<and>
    self = \<lparr> rl_log_pdf = log_pdf,
           rl_parameters = scatter (np_empty u (length mask_arg)) (map truth mask_arg) values,
           rl_mask = map Not (map truth mask_arg),
           rl_n_parameters = count_true (map Not (map truth mask_arg)) \<rparr>"
  by (auto simp add: ReducedLogPDF_init_def Let_def setitem_mask_def np_empty_def)

lemma sum_log_pdf_init:
  "ReducedLogPDF_init (memory 0) (sum_log_pdf 3) [PyBool False, PyBool True, PyBool False] [5]
     = Inr \<lparr> rl_log_pdf = sum_log_pdf 3, rl_parameters = [0, 5, 0],
              rl_mask = [True, False, True], rl_n_parameters = 2 \<rparr>"
  by (simp add: ReducedLogPDF_init_def sum_log_pdf_def asarray_dtype_def count_true_def
      setitem_mask_def np_empty_def upt_rec memory_def)

text \<open>
  Claim C1. Let the objective have \<open>n\<close> parameters, the mask be a boolean array of
  length \<open>n\<close> and the fixed values be as many as the mask has true entries. Then the
  adapter is constructed, and calling it on a vector of \<open>n - count(mask)\<close> free values
  calls the wrapped objective once, on a vector \<open>full\<close> of length \<open>n\<close> whose non-fixed
  positions hold the free values and whose fixed positions hold the fixed values, each in
  ascending index order; the call returns the objective's score. That the result and the
  objective's state are those of \<open>lp_call log_pdf full s\<close> says that the objective ran
  exactly once, on \<open>full\<close>, from the state the call started in.
\<close>

theorem ReducedLogPDF_call_scatters:
  assumes "length mask_arg = lp_n_parameters log_pdf"
      and "asarray_dtype mask_arg = dtype_bool"
      and "length values = count_true (map truth mask_arg)"
      and "length parameters = lp_n_parameters log_pdf - count_true (map truth mask_arg)"
  shows "\<exists>self full.
           ReducedLogPDF_init u log_pdf mask_arg values = Inr self
         \<and> length full = lp_n_parameters log_pdf
         \<and> select full (map Not (map truth mask_arg)) = parameters
         \<and> select full (map truth mask_arg) = values
         \<and> ReducedLogPDF_call self parameters s =
             Inr (fst (lp_call log_pdf full s), self\<lparr>rl_parameters := full\<rparr>,
                  snd (lp_call log_pdf full s))"
proof -
  define m where "m = map truth mask_arg"
  define buf where "buf = scatter (np_empty u (length mask_arg)) m values"
  define self where "self = \<lparr> rl_log_pdf = log_pdf, rl_parameters = buf,
           rl_mask = map Not m, rl_n_parameters = count_true (map Not m) \<rparr>"
  define full where "full = scatter buf (map Not m) parameters"
  have init: "ReducedLogPDF_init u log_pdf mask_arg values = Inr self"
    using assms(1-3) by (simp add: ReducedLogPDF_init_ok self_def buf_def m_def)
  have lm: "length m = length mask_arg" by (simp add: m_def)
  have lbuf: "length buf = length mask_arg" by (simp add: buf_def np_empty_def)
  have "count_true (map Not m) + count_true m = length m" by (rule count_true_Not)
  with assms(1,4) lm have lp: "length parameters = count_true (map Not m)"
    by (simp add: m_def)
  have free: "select full (map Not m) = parameters"
    unfolding full_def using lp lbuf lm by (simp add: select_scatter_same)
  have "select full (map Not (map Not m)) = select buf (map Not (map Not m))"
    unfolding full_def using lbuf lm select_scatter_other [of "map Not m" buf parameters]
    by (simp del: map_map)
  moreover have "map Not (map Not m) = m" by (simp add: comp_def)
  ultimately have "select full m = select buf m" by simp
  also have "\<dots> = values"
    unfolding buf_def using assms(3) lm by (simp add: select_scatter_same np_empty_def m_def)
  finally have fixed: "select full m = values" .
  have call: "ReducedLogPDF_call self parameters s =
             Inr (fst (lp_call log_pdf full s), self\<lparr>rl_parameters := full\<rparr>,
                  snd (lp_call log_pdf full s))"
    using lp lbuf lm
    by (simp add: ReducedLogPDF_call_def setitem_mask_def self_def full_def split: prod.splits)
  have "length full = lp_n_parameters log_pdf"
    using assms(1) lbuf by (simp add: full_def)
  with init free fixed call show ?thesis unfolding m_def by blast
qed

theorem ReducedLogPDF_call_scatters_witness:
  "\<exists>self full.
      ReducedLogPDF_init (memory 0) (sum_log_pdf 3) [PyBool False, PyBool True, PyBool False] [5]
        = Inr self
    \<and> length full = 3
    \<and> select full [True, False, True] = [1, 2]
    \<and> select full [False, True, False] = [5]
    \<and> ReducedLogPDF_call self [1, 2] [] = Inr (sum_list full, self\<lparr>rl_parameters := full\<rparr>, [full])"
  using ReducedLogPDF_call_scatters [of "[PyBool False, PyBool True, PyBool False]"
      "sum_log_pdf 3" "[5]" "[1, 2]" "memory 0" "[]"]
  by (simp add: sum_log_pdf_def asarray_dtype_def count_true_def)

text \<open>
  Claim C6. Construction raises a ValueError exactly when the mask's length differs from
  the objective's parameter count, or the mask does not convert to a bool array, or the
  number of fixed values differs from the number of true mask entries; it succeeds
  exactly when none of the three holds. (By \<open>asarray_dtype_bool\<close>, numpy's conversion
  also counts the empty list as not boolean.)
\<close>

theorem ReducedLogPDF_init_raises_iff:
  "((\<exists>msg. ReducedLogPDF_init u log_pdf mask_arg values = Inl (ValueError msg)) \<longleftrightarrow>
      (length mask_arg \<noteq> lp_n_parameters log_pdf \<or> asarray_dtype mask_arg \<noteq> dtype_bool
       \<or> length values \<noteq> count_true (map truth mask_arg)))
   \<and> ((\<exists>self. ReducedLogPDF_init u log_pdf mask_arg values = Inr self) \<longleftrightarrow>
      (length mask_arg = lp_n_parameters log_pdf \<and> asarray_dtype mask_arg = dtype_bool
       \<and> length values = count_true (map truth mask_arg)))"
  by (auto simp add: ReducedLogPDF_init_def Let_def setitem_mask_def np_empty_def)

theorem ReducedLogPDF_init_raises_iff_witness:
  "(\<exists>self. ReducedLogPDF_init (memory 0) (sum_log_pdf 3)
              [PyBool False, PyBool True, PyBool False] [5] = Inr self)
   \<and> (\<exists>msg. ReducedLogPDF_init (memory 0) (sum_log_pdf 3)
              [PyBool False, PyInt 1, PyBool False] [5] = Inl (ValueError msg))
   \<and> (\<exists>msg. ReducedLogPDF_init (memory 0) (sum_log_pdf 3)
              [PyStr ''False'', PyStr ''True'', PyStr ''True''] [5, 6] = Inl (ValueError msg))
   \<and> (\<exists>msg. ReducedLogPDF_init (memory 0) (sum_log_pdf 3)
              [PyBool False, PyBool True] [5] = Inl (ValueError msg))
   \<and> (\<exists>msg. ReducedLogPDF_init (memory 0) (sum_log_pdf 3)
              [PyBool False, PyBool True, PyBool False] [5, 6] = Inl (ValueError msg))"
  using ReducedLogPDF_init_raises_iff [of "memory 0" "sum_log_pdf 3"
          "[PyBool False, PyBool True, PyBool False]" "[5]"]
    ReducedLogPDF_init_raises_iff [of "memory 0" "sum_log_pdf 3"
          "[PyBool False, PyInt 1, PyBool False]" "[5]"]
    ReducedLogPDF_init_raises_iff [of "memory 0" "sum_log_pdf 3"
          "[PyStr ''False'', PyStr ''True'', PyStr ''True'']" "[5, 6]"]
    ReducedLogPDF_init_raises_iff [of "memory 0" "sum_log_pdf 3"
          "[PyBool False, PyBool True]" "[5]"]
    ReducedLogPDF_init_raises_iff [of "memory 0" "sum_log_pdf 3"
          "[PyBool False, PyBool True, PyBool False]" "[5, 6]"]
  by (simp add: sum_log_pdf_def asarray_dtype_def count_true_def)

text \<open>
  Claim C7. Let an adapter \<open>a\<close> be built from an objective, a mask and fixed values.
  Then the configuration with the all-false mask and no fixed values is accepted, the
  configuration with the first mask and values is accepted again afterwards, and the
  adapter \<open>b\<close> it gives behaves as \<open>a\<close> on every input: the same score, the same call
  of the objective, the same buffer left behind, or the same error. The three buffers
  start from unrelated memory contents \<open>u1\<close>, \<open>u2\<close> and \<open>u3\<close>.
\<close>

theorem ReducedLogPDF_round_trip:
  assumes "ReducedLogPDF_init u1 log_pdf mask_arg values = Inr a"
  shows "\<exists>i b. ReducedLogPDF_init u2 log_pdf
                 (replicate (lp_n_parameters log_pdf) (PyBool False)) [] = Inr i
             \<and> ReducedLogPDF_init u3 log_pdf mask_arg values = Inr b
             \<and> ReducedLogPDF_call b parameters s = ReducedLogPDF_call a parameters s"
proof -
  define m where "m = map truth mask_arg"
  define fm where "fm = map Not m"
  define n where "n = lp_n_parameters log_pdf"
  define bufA where "bufA = scatter (np_empty u1 (length mask_arg)) m values"
  define bufB where "bufB = scatter (np_empty u3 (length mask_arg)) m values"
  from assms have len: "length mask_arg = n"
    and dt: "asarray_dtype mask_arg = dtype_bool"
    and lv: "length values = count_true m"
    and a: "a = \<lparr> rl_log_pdf = log_pdf, rl_parameters = bufA,
           rl_mask = fm, rl_n_parameters = count_true fm \<rparr>"
    by (simp_all add: ReducedLogPDF_init_Inr_iff m_def n_def fm_def bufA_def)
  from dt have "mask_arg \<noteq> []" by (simp add: asarray_dtype_bool)
  with len have pos: "0 < n" by auto
  have "asarray_dtype (replicate n (PyBool False)) = dtype_bool"
    using pos by (simp add: asarray_dtype_bool list_all_iff)
  moreover have "count_true (map truth (replicate n (PyBool False))) = 0"
    by (simp add: count_true_def)
  ultimately have i: "\<exists>i. ReducedLogPDF_init u2 log_pdf (replicate n (PyBool False)) [] = Inr i"
    by (simp add: ReducedLogPDF_init_ok n_def)
  define b where "b = \<lparr> rl_log_pdf = log_pdf, rl_parameters = bufB,
           rl_mask = fm, rl_n_parameters = count_true fm \<rparr>"
  have b: "ReducedLogPDF_init u3 log_pdf mask_arg values = Inr b"
    using len dt lv by (simp add: ReducedLogPDF_init_ok b_def m_def n_def fm_def bufB_def)
  have lens: "length bufA = length m" "length bufB = length m" "length fm = length m"
    by (simp_all add: bufA_def bufB_def np_empty_def m_def fm_def)
  have same: "scatter bufB fm ps = scatter bufA fm ps" if "length ps = count_true fm" for ps
    unfolding bufA_def bufB_def fm_def
    using that lv by (intro scatter_twice) (simp_all add: np_empty_def m_def fm_def)
  have sm: "setitem_mask bufB fm parameters = setitem_mask bufA fm parameters"
    unfolding setitem_mask_def using lens by (simp add: same)
  have "ReducedLogPDF_call b parameters s = ReducedLogPDF_call a parameters s"
    unfolding ReducedLogPDF_call_def a b_def by (simp add: sm split: sum.splits)
  with i b show ?thesis unfolding n_def by blast
qed

theorem ReducedLogPDF_round_trip_witness:
  "\<exists>i b. ReducedLogPDF_init (memory 1) (sum_log_pdf 3)
            [PyBool False, PyBool False, PyBool False] [] = Inr i
     \<and> ReducedLogPDF_init (memory 2) (sum_log_pdf 3)
            [PyBool False, PyBool True, PyBool False] [5] = Inr b
     \<and> ReducedLogPDF_call b [1, 2] [] =
         Inr (8, \<lparr> rl_log_pdf = sum_log_pdf 3, rl_parameters = [1, 5, 2],
                   rl_mask = [True, False, True], rl_n_parameters = 2 \<rparr>, [[1, 5, 2]])"
  using ReducedLogPDF_round_trip [OF sum_log_pdf_init, of "memory 1" "memory 2" "[1, 2]" "[]"]
  by (simp add: ReducedLogPDF_call_def setitem_mask_def count_true_def sum_log_pdf_def
      numeral_3_eq_3)

text \<open>
  Claim C8. For an adapter constructed over an objective with \<open>n\<close> parameters and a mask
  with \<open>k\<close> true entries, \<open>k\<close> is at most \<open>n\<close> and \<^verbatim>\<open>n_parameters()\<close> returns \<open>n - k\<close>.
\<close>

theorem ReducedLogPDF_n_parameters_reduced:
  assumes "ReducedLogPDF_init u log_pdf mask_arg values = Inr self"
  shows "ReducedLogPDF_n_parameters self
           = lp_n_parameters log_pdf - count_true (map truth mask_arg)
       \<and> count_true (map truth mask_arg) \<le> lp_n_parameters log_pdf"
proof -
  from assms have len: "length mask_arg = lp_n_parameters log_pdf"
    and n: "rl_n_parameters self = count_true (map Not (map truth mask_arg))"
    by (simp_all add: ReducedLogPDF_init_Inr_iff)
  have "count_true (map Not (map truth mask_arg)) + count_true (map truth mask_arg)
          = length mask_arg"
    using count_true_Not [of "map truth mask_arg"] by simp
  with len n show ?thesis by (simp add: ReducedLogPDF_n_parameters_def)
qed

theorem ReducedLogPDF_n_parameters_reduced_witness:
  "ReducedLogPDF_n_parameters \<lparr> rl_log_pdf = sum_log_pdf 3, rl_parameters = [0, 5, 0],
              rl_mask = [True, False, True], rl_n_parameters = 2 \<rparr> = 3 - 1
   \<and> (1::nat) \<le> 3"
  using ReducedLogPDF_n_parameters_reduced [OF sum_log_pdf_init]
  by (simp add: sum_log_pdf_def count_true_def)

section \<open>Properties of \<^verbatim>\<open>get_dosing_regimen\<close>\<close>

text \<open>The example models are what the constructors return.\<close>

lemma line_predictive_model_init:
  "PredictiveModel_init (line_model dosing) [shift_error_model]
     = Inr (line_predictive_model dosing)"
  by (simp add: PredictiveModel_init_def line_model_def shift_error_model_def
      line_predictive_model_def)

lemma line_prior_predictive_model_init:
  "PriorPredictiveModel_init (line_predictive_model no_dosing) counting_prior
     = Inr line_prior_predictive_model"
  by (simp add: PriorPredictiveModel_init_def line_predictive_model_def counting_prior_def
      line_prior_predictive_model_def)

text \<open>The dataframe is the rows of the events, one event after the other.\<close>

lemma regimen_loop_concat:
  "regimen_loop final_time events regimen_df
     = regimen_df @ concat (map (event_rows final_time) events)"
  by (induction events arbitrary: regimen_df) simp_all

text \<open>An event that starts after the final time appends nothing.\<close>

lemma event_rows_not_started:
  "\<not> starts_by final_time dose_event \<Longrightarrow>
   event_rows (case final_time of None \<Rightarrow> Infinite | Some t \<Rightarrow> Finite t) dose_event = []"
  by (cases final_time) (simp_all add: starts_by_def event_rows_def Let_def)

text \<open>
  Without a final time, an event that repeats without end gives its first dose only.
\<close>

lemma get_dosing_regimen_indefinite_default:
  assumes "mm_dosing_regimen (pm_mechanistic_model self) = Inr (Some [dose_event])"
      and "ev_period dose_event \<noteq> 0" and "ev_multiplier dose_event = 0"
  shows "get_dosing_regimen self None =
           Inr (Some [\<lparr> Time = ev_start dose_event, Duration = ev_duration dose_event,
                         Dose = ev_level dose_event * ev_duration dose_event \<rparr>])"
  using assms by (simp add: get_dosing_regimen_def event_rows_def Let_def)

text \<open>
  Claim C3, at the input where the code departs from it. For the regimen that starts at
  0 and repeats every 2 time units without end, the claim asks, with a final time of 7,
  for the doses at 0, 2, 4 and 6. The code takes \<open>\<lfloor>7 / 2\<rfloor> = 3\<close> as the number of
  doses, whatever the start, and returns the doses at 0, 2 and 4.
\<close>

theorem get_dosing_regimen_indefinite_final_7:
  "get_dosing_regimen (line_predictive_model (Inr (Some [indefinite_event 0]))) (Some 7)
     = Inr (Some [\<lparr> Time = 0, Duration = 1 / 100, Dose = 1 \<rparr>,
                  \<lparr> Time = 2, Duration = 1 / 100, Dose = 1 \<rparr>,
                  \<lparr> Time = 4, Duration = 1 / 100, Dose = 1 \<rparr>])"
  by code_simp

text \<open>
  Claim C9 as stated, a ValueError for every negative final time, fails on a model
  without dosing: the call returns None.
\<close>

theorem get_dosing_regimen_negative_counterexample:
  "get_dosing_regimen (line_predictive_model no_dosing) (Some (- 1)) = Inr None"
  by (simp add: get_dosing_regimen_def line_predictive_model_def line_model_def no_dosing_def)

text \<open>
  Claim C9, amended. When the mechanistic model supports dosing and a regimen is set,
  every negative final time raises the ValueError.
\<close>

theorem get_dosing_regimen_negative:
  assumes "mm_dosing_regimen (pm_mechanistic_model self) = Inr (Some regimen)"
      and "final_time < 0"
  shows "get_dosing_regimen self (Some final_time)
           = Inl (ValueError ''The final dose time has to be positive.'')"
  using assms by (simp add: get_dosing_regimen_def)

theorem get_dosing_regimen_negative_witness:
  "get_dosing_regimen (line_predictive_model (Inr (Some [indefinite_event 0]))) (Some (- 1))
     = Inl (ValueError ''The final dose time has to be positive.'')"
proof -
  have h: "mm_dosing_regimen (pm_mechanistic_model
             (line_predictive_model (Inr (Some [indefinite_event 0]))))
           = Inr (Some [indefinite_event 0])"
    by (simp add: line_predictive_model_def line_model_def)
  show ?thesis using get_dosing_regimen_negative [OF h, of "- 1"] by simp
qed

text \<open>
  Claim C10 as stated fails in its third case: with a regimen set, a negative final time
  raises, although no dose event starts at or before it.
\<close>

theorem get_dosing_regimen_None_counterexample:
  "\<not> starts_by (Some (- 1)) (indefinite_event 0)
   \<and> get_dosing_regimen (line_predictive_model (Inr (Some [indefinite_event 0]))) (Some (- 1))
       = Inl (ValueError ''The final dose time has to be positive.'')"
  by (simp add: starts_by_def indefinite_event_def get_dosing_regimen_def
      line_predictive_model_def line_model_def)

text \<open>
  Claim C10, amended. The call returns None, and raises nothing, when the mechanistic
  model has no dosing (whatever the final time, negative ones included), when no regimen
  is set (likewise), and when a regimen is set, the final time is absent or not
  negative, and no dose event starts at or before it.
\<close>

theorem get_dosing_regimen_None:
  "(mm_dosing_regimen (pm_mechanistic_model self) = Inl (AttributeError msg)
      \<longrightarrow> get_dosing_regimen self final_time = Inr None)
 \<and> (mm_dosing_regimen (pm_mechanistic_model self) = Inr None
      \<longrightarrow> get_dosing_regimen self final_time = Inr None)
 \<and> (mm_dosing_regimen (pm_mechanistic_model self) = Inr (Some regimen)
      \<and> (\<forall>t. final_time = Some t \<longrightarrow> 0 \<le> t)
      \<and> (\<forall>dose_event \<in> set regimen. \<not> starts_by final_time dose_event)
      \<longrightarrow> get_dosing_regimen self final_time = Inr None)"
proof (intro conjI impI)
  assume "mm_dosing_regimen (pm_mechanistic_model self) = Inl (AttributeError msg)"
  then show "get_dosing_regimen self final_time = Inr None"
    by (simp add: get_dosing_regimen_def)
next
  assume "mm_dosing_regimen (pm_mechanistic_model self) = Inr None"
  then show "get_dosing_regimen self final_time = Inr None"
    by (simp add: get_dosing_regimen_def)
next
  assume a: "mm_dosing_regimen (pm_mechanistic_model self) = Inr (Some regimen)
      \<and> (\<forall>t. final_time = Some t \<longrightarrow> 0 \<le> t)
      \<and> (\<forall>dose_event \<in> set regimen. \<not> starts_by final_time dose_event)"
  define b where "b = (case final_time of None \<Rightarrow> Infinite | Some t \<Rightarrow> Finite t)"
  from a have "concat (map (event_rows b) regimen) = []"
    unfolding b_def by (simp add: event_rows_not_started)
  then have "regimen_loop b regimen [] = []"
    by (simp add: regimen_loop_concat)
  moreover from a have "\<not> (case b of Finite t \<Rightarrow> t < 0 | Infinite \<Rightarrow> False)"
    unfolding b_def by (cases final_time) auto
  ultimately show "get_dosing_regimen self final_time = Inr None"
    using a by (simp add: get_dosing_regimen_def b_def [symmetric])
qed

theorem get_dosing_regimen_None_witness:
  "get_dosing_regimen (line_predictive_model no_dosing) (Some (- 1)) = Inr None
 \<and> get_dosing_regimen (line_predictive_model (Inr None)) (Some (- 1)) = Inr None
 \<and> get_dosing_regimen (line_predictive_model (Inr (Some [indefinite_event 10]))) (Some 7)
     = Inr None"
  using get_dosing_regimen_None [of "line_predictive_model no_dosing"
          "''object has no attribute dosing_regimen''" "Some (- 1)" "[]"]
    get_dosing_regimen_None [of "line_predictive_model (Inr None)" "[]" "Some (- 1)" "[]"]
    get_dosing_regimen_None [of "line_predictive_model (Inr (Some [indefinite_event 10]))"
          "[]" "Some 7" "[indefinite_event 10]"]
  by (simp add: line_predictive_model_def line_model_def no_dosing_def starts_by_def
      indefinite_event_def)

section \<open>Properties of \<^verbatim>\<open>sample\<close>\<close>

lemma simulate_calls_append [simp]:
  "simulate_calls (xs @ ys) = simulate_calls xs @ simulate_calls ys"
  by (simp add: simulate_calls_def List.map_filter_def)

lemma simulate_calls_Nil [simp]: "simulate_calls [] = []"
  by (simp add: simulate_calls_def List.map_filter_def)

lemma simulate_calls_Cons [simp]:
  "simulate_calls (e # evs) =
     (case simulate_call e of None \<Rightarrow> simulate_calls evs | Some c \<Rightarrow> c # simulate_calls evs)"
  by (simp add: simulate_calls_def List.map_filter_simps split: option.splits)

lemma error_sample_calls_append [simp]:
  "error_sample_calls (xs @ ys) = error_sample_calls xs @ error_sample_calls ys"
  by (simp add: error_sample_calls_def List.map_filter_def)

lemma error_sample_calls_Nil [simp]: "error_sample_calls [] = []"
  by (simp add: error_sample_calls_def List.map_filter_def)

lemma error_sample_calls_Cons [simp]:
  "error_sample_calls (e # evs) =
     (case error_sample_call e of None \<Rightarrow> error_sample_calls evs
      | Some c \<Rightarrow> c # error_sample_calls evs)"
  by (simp add: error_sample_calls_def List.map_filter_simps split: option.splits)

lemma call_em_sample_trace:
  "call_em_sample em i p y n s w = (r, w') \<Longrightarrow> w_trace w' = w_trace w @ [ErrorSample i p y n s]"
  by (auto simp: call_em_sample_def split: prod.splits)

lemma call_simulate_trace:
  "call_simulate m p ts w = (r, w') \<Longrightarrow> w_trace w' = w_trace w @ [Simulate p ts]"
  by (auto simp: call_simulate_def split: prod.splits)


lemma sample_errors_trace:
  "\<exists>evs. w_trace (snd (sample_errors ems output_id start_index error_params outputs n_times
                        n_samples seed container w)) = w_trace w @ evs
       \<and> simulate_calls evs = [] \<and> filter is_draw_or_sample evs = []
       \<and> (\<forall>c. fst (sample_errors ems output_id start_index error_params outputs n_times
                        n_samples seed container w) = Inr c \<longrightarrow>
              error_sample_calls evs =
                zip [output_id..<output_id + length ems]
                    (chunks (map em_n_parameters ems) (drop start_index error_params)))"
proof (induction ems arbitrary: output_id start_index container w)
  case Nil
  then show ?case by simp
next
  case (Cons em ems)
  show ?case
  proof (cases "length outputs \<le> output_id")
    case True
    then show ?thesis by simp
  next
    case False
    define p where "p = slice error_params start_index (start_index + em_n_parameters em)"
    obtain s w' where c: "call_em_sample em output_id p (outputs ! output_id) n_samples seed w = (s, w')"
      by (cases "call_em_sample em output_id p (outputs ! output_id) n_samples seed w")
    have t: "w_trace w' = w_trace w @ [ErrorSample output_id p (outputs ! output_id) n_samples seed]"
      by (rule call_em_sample_trace [OF c])
    show ?thesis
    proof (cases "has_shape n_times (nat n_samples) s")
      case False
      with \<open>\<not> length outputs \<le> output_id\<close> c t show ?thesis
        by (simp add: p_def [symmetric])
    next
      case True
      let ?rest = "sample_errors ems (Suc output_id) (start_index + em_n_parameters em)
                     error_params outputs n_times n_samples seed (container[output_id := s]) w'"
      from Cons.IH [of "Suc output_id" "start_index + em_n_parameters em" "container[output_id := s]" w']
      obtain evs where evs: "w_trace (snd ?rest) = w_trace w' @ evs"
        "simulate_calls evs = []" "filter is_draw_or_sample evs = []"
        "\<forall>c. fst ?rest = Inr c \<longrightarrow> error_sample_calls evs =
                zip [Suc output_id..<Suc output_id + length ems]
                    (chunks (map em_n_parameters ems)
                       (drop (start_index + em_n_parameters em) error_params))"
        by blast
      have eq: "sample_errors (em # ems) output_id start_index error_params outputs n_times
                        n_samples seed container w = ?rest"
        using \<open>\<not> length outputs \<le> output_id\<close> c True by (simp add: p_def [symmetric])
      have up: "[output_id..<output_id + length (em # ems)]
                 = output_id # [Suc output_id..<Suc output_id + length ems]"
        by (simp add: upt_rec)
      have pd: "p = take (em_n_parameters em) (drop start_index error_params)"
        by (simp add: p_def slice_def)
      have dd: "drop (start_index + em_n_parameters em) error_params
                 = drop (em_n_parameters em) (drop start_index error_params)"
        by (simp add: add.commute)
      show ?thesis
        unfolding eq
        apply (rule exI [of _ "ErrorSample output_id p (outputs ! output_id) n_samples seed # evs"])
        using evs t up pd dd by simp
    qed
  qed
qed

lemma PredictiveModel_sample_trace:
  "\<exists>evs. w_trace (snd (PredictiveModel_sample u self parameters ts n_samples seed return_df w))
           = w_trace w @ PredictiveSample parameters ts n_samples seed # evs
       \<and> filter is_draw_or_sample evs = []
       \<and> (length parameters = pm_n_parameters self \<longrightarrow>
            simulate_calls evs
              = [(take (mm_n_parameters (pm_mechanistic_model self)) parameters, sort ts)])
       \<and> (\<forall>r. fst (PredictiveModel_sample u self parameters ts n_samples seed return_df w)
                 = Inr r \<longrightarrow>
            error_sample_calls evs =
              zip [0..<length (pm_error_models self)]
                (chunks (map em_n_parameters (pm_error_models self))
                   (drop (mm_n_parameters (pm_mechanistic_model self)) parameters)))"
proof (cases "length parameters = pm_n_parameters self")
  case False
  then show ?thesis by (simp add: PredictiveModel_sample_def)
next
  case True
  define n where "n = mm_n_parameters (pm_mechanistic_model self)"
  define w1 where "w1 = w\<lparr> w_trace := w_trace w @ [PredictiveSample parameters ts n_samples seed] \<rparr>"
  obtain outputs w2 where sim:
    "call_simulate (pm_mechanistic_model self) (take n parameters) (sort ts) w1 = (outputs, w2)"
    by (cases "call_simulate (pm_mechanistic_model self) (take n parameters) (sort ts) w1")
  have t2: "w_trace w2 = w_trace w @ [PredictiveSample parameters ts n_samples seed,
                                       Simulate (take n parameters) (sort ts)]"
    using call_simulate_trace [OF sim] by (simp add: w1_def)
  define k where "k = (case n_samples of None \<Rightarrow> 1 | Some n \<Rightarrow> n)"
  show ?thesis
  proof (cases "k < 0")
    case neg: True
    have "PredictiveModel_sample u self parameters ts n_samples seed return_df w
            = (Inl (ValueError ''negative dimensions are not allowed''), w2)"
      using True sim neg
      by (simp add: PredictiveModel_sample_def Let_def n_def w1_def k_def)
    with t2 show ?thesis by (simp add: n_def)
  next
    case nonneg: False
    let ?loop = "sample_errors (pm_error_models self) 0 0 (drop n parameters) outputs
                   (length (sort ts)) k seed
                   (np_empty3 u (length outputs) (length (sort ts)) (nat k)) w2"
    obtain r w3 where loop: "?loop = (r, w3)" by (cases ?loop)
    from sample_errors_trace [of "pm_error_models self" 0 0 "drop n parameters" outputs
        "length (sort ts)" k seed "np_empty3 u (length outputs) (length (sort ts)) (nat k)" w2]
    obtain evs where evs: "w_trace w3 = w_trace w2 @ evs" "simulate_calls evs = []"
      "filter is_draw_or_sample evs = []"
      "\<forall>c. r = Inr c \<longrightarrow> error_sample_calls evs =
                zip [0..<length (pm_error_models self)]
                    (chunks (map em_n_parameters (pm_error_models self)) (drop n parameters))"
      unfolding loop by auto
    have res: "snd (PredictiveModel_sample u self parameters ts n_samples seed return_df w) = w3
       \<and> (\<forall>x. fst (PredictiveModel_sample u self parameters ts n_samples seed return_df w) = Inr x
             \<longrightarrow> (\<exists>c. r = Inr c))"
      using True sim nonneg loop
      by (auto simp add: PredictiveModel_sample_def Let_def n_def w1_def k_def
          split: sum.splits)
    show ?thesis
      apply (rule exI [of _ "Simulate (take n parameters) (sort ts) # evs"])
      using res evs t2 by (auto simp add: n_def)
  qed
qed

text \<open>The pieces, put one after the other, are the front of the list.\<close>

lemma concat_chunks: "concat (chunks ks xs) = take (sum_list ks) xs"
proof (induction ks arbitrary: xs)
  case Nil
  then show ?case by simp
next
  case (Cons k ks)
  have "take k xs @ take (sum_list ks) (drop k xs) = take (k + sum_list ks) xs"
    by (simp add: take_add)
  with Cons show ?case by simp
qed

text \<open>
  Claim C5 as stated, one call of the simulator over the sorted and de-duplicated times,
  fails when a time point is given twice: \<^verbatim>\<open>np.sort\<close> keeps both, and the simulator
  is called with both.
\<close>

theorem PredictiveModel_sample_splits_counterexample:
  "simulate_calls (w_trace (snd (PredictiveModel_sample (memory3 0)
       (line_predictive_model no_dosing) [1, 0] [1, 1] None None True empty_world)))
     \<noteq> [([1], remdups (sort [1, 1]))]"
  by code_simp

text \<open>
  Claim C5, amended. For a parameter vector of the length \<^verbatim>\<open>n_parameters()\<close>, whatever
  the times and whether or not the call goes on to raise, \<^verbatim>\<open>sample\<close> calls the
  simulator exactly once, with the first \<^verbatim>\<open>mechanistic.n_parameters()\<close> parameters and
  the sorted times, duplicates kept. When the call returns, the error models were called
  once each, in the order of the outputs, the \<open>i\<close>-th one with the \<open>i\<close>-th of the
  consecutive pieces of the remaining parameters, each piece as long as its error model
  has parameters. When the parameter counts of the submodels add up to that of the
  predictive model, the mechanistic part and the pieces make up the whole vector.
\<close>

theorem PredictiveModel_sample_splits:
  assumes "length parameters = pm_n_parameters self"
  shows "\<exists>evs.
      w_trace (snd (PredictiveModel_sample u self parameters ts n_samples seed return_df w))
        = w_trace w @ evs
    \<and> simulate_calls evs
        = [(take (mm_n_parameters (pm_mechanistic_model self)) parameters, sort ts)]
    \<and> (\<forall>r. fst (PredictiveModel_sample u self parameters ts n_samples seed return_df w) = Inr r
          \<longrightarrow> error_sample_calls evs =
                zip [0..<length (pm_error_models self)]
                  (chunks (map em_n_parameters (pm_error_models self))
                     (drop (mm_n_parameters (pm_mechanistic_model self)) parameters)))
    \<and> (pm_n_parameters self = mm_n_parameters (pm_mechanistic_model self)
                                + sum_list (map em_n_parameters (pm_error_models self))
          \<longrightarrow> take (mm_n_parameters (pm_mechanistic_model self)) parameters
                @ concat (chunks (map em_n_parameters (pm_error_models self))
                     (drop (mm_n_parameters (pm_mechanistic_model self)) parameters))
              = parameters)"
proof -
  from PredictiveModel_sample_trace [of u self parameters ts n_samples seed return_df w]
  obtain evs where evs:
    "w_trace (snd (PredictiveModel_sample u self parameters ts n_samples seed return_df w))
           = w_trace w @ PredictiveSample parameters ts n_samples seed # evs"
    "length parameters = pm_n_parameters self \<longrightarrow>
            simulate_calls evs
              = [(take (mm_n_parameters (pm_mechanistic_model self)) parameters, sort ts)]"
    "\<forall>r. fst (PredictiveModel_sample u self parameters ts n_samples seed return_df w)
                 = Inr r \<longrightarrow>
            error_sample_calls evs =
              zip [0..<length (pm_error_models self)]
                (chunks (map em_n_parameters (pm_error_models self))
                   (drop (mm_n_parameters (pm_mechanistic_model self)) parameters))"
    by blast
  have tile: "take n parameters @ concat (chunks ks (drop n parameters)) = parameters"
    if "length parameters = n + sum_list ks" for n ks
    using that by (simp add: concat_chunks)
  show ?thesis
    apply (rule exI [of _ "PredictiveSample parameters ts n_samples seed # evs"])
    using evs assms tile by simp
qed

theorem PredictiveModel_sample_splits_witness:
  "simulate_calls (w_trace (snd (PredictiveModel_sample (memory3 0)
       (line_predictive_model no_dosing) [2, 1 / 2] [3, 1] (Some 2) None True empty_world)))
     = [([2], [1, 3])]
   \<and> error_sample_calls (w_trace (snd (PredictiveModel_sample (memory3 0)
       (line_predictive_model no_dosing) [2, 1 / 2] [3, 1] (Some 2) None True empty_world)))
     = [(0, [1 / 2])]
   \<and> take 1 [2, 1 / 2 :: real] @ concat (chunks [1] (drop 1 [2, 1 / 2])) = [2, 1 / 2]"
proof -
  have h: "length [2, 1 / 2 :: real] = pm_n_parameters (line_predictive_model no_dosing)"
    by (simp add: line_predictive_model_def)
  have ok: "fst (PredictiveModel_sample (memory3 0)
       (line_predictive_model no_dosing) [2, 1 / 2] [3, 1] (Some 2) None True empty_world)
     = Inr (DataFrame
        [\<lparr>Sample_ID = 1, Biomarker = ''volume'', Sample_Time = 1, Sample = 5 / 2\<rparr>,
         \<lparr>Sample_ID = 2, Biomarker = ''volume'', Sample_Time = 1, Sample = 5 / 2\<rparr>,
         \<lparr>Sample_ID = 1, Biomarker = ''volume'', Sample_Time = 3, Sample = 13 / 2\<rparr>,
         \<lparr>Sample_ID = 2, Biomarker = ''volume'', Sample_Time = 3, Sample = 13 / 2\<rparr>])"
    by code_simp
  from PredictiveModel_sample_splits [OF h, of "memory3 0" "[3, 1]" "Some 2" None True empty_world] ok
  show ?thesis
    by (auto simp add: empty_world_def line_predictive_model_def line_model_def
        shift_error_model_def)
qed





section \<open>Properties of the optimisation controller\<close>









end
